theory Spec2Isabelle
  imports Complex_Main
begin

section \<open>JavaScript values\<close>

text \<open>
  The program is a TypeScript action that runs on Node. What it receives from the outside
  (the event payload, the reply of the inference service) is untyped at run time, so the
  model works on JavaScript values rather than on the annotated TypeScript types.

  Strings are lists of code units; a \<^typ>\<open>char\<close> holds the code units below 256, which
  covers the Latin-1 text of the prompt.
\<close>

datatype js_error = TypeError | SyntaxError | HostError

text \<open>
  A JavaScript number. \<open>Finite q\<close> carries the mathematical value; rounding to the
  nearest IEEE-754 double and the sign of zero are not represented.
\<close>

datatype js_number = NaN | PosInfinity | NegInfinity | Finite rat

datatype jsval =
    JUndefined
  | JNull
  | JBool bool
  | JNum js_number
  | JStr string
  | JArr "jsval list"
  | JObj "(string \<times> jsval) list"

text \<open>The test of \<open>if (v)\<close> and of \<open>v ? a : b\<close>.\<close>

fun truthy :: "jsval \<Rightarrow> bool" where
  "truthy JUndefined = False"
| "truthy JNull = False"
| "truthy (JBool b) = b"
| "truthy (JNum n) = (n \<noteq> NaN \<and> n \<noteq> Finite 0)"
| "truthy (JStr s) = (s \<noteq> [])"
| "truthy (JArr xs) = True"
| "truthy (JObj kvs) = True"

text \<open>
  Reading a data property \<open>v.k\<close>. On \<open>undefined\<close> and \<open>null\<close> the read throws a
  TypeError. An object built by \<open>JSON.parse\<close> has only own data properties; the keys
  the program reads (\<open>reviews\<close>, \<open>reviewComment\<close>, \<open>lineNumber\<close>, \<open>action\<close>) exist
  on no built-in prototype, so on every other value the read gives \<open>undefined\<close>.
\<close>

fun get_prop :: "jsval \<Rightarrow> string \<Rightarrow> js_error + jsval" where
  "get_prop JUndefined k = Inl TypeError"
| "get_prop JNull k = Inl TypeError"
| "get_prop (JObj kvs) k = Inr (case map_of kvs k of None \<Rightarrow> JUndefined | Some v \<Rightarrow> v)"
| "get_prop v k = Inr JUndefined"

subsection \<open>String.prototype.trim and split\<close>

definition js_whitespace :: "char \<Rightarrow> bool" where
  "js_whitespace c \<longleftrightarrow>
     c \<in> {CHR 0x09, CHR 0x0A, CHR 0x0B, CHR 0x0C, CHR 0x0D, CHR 0x20, CHR 0xA0}"

definition trim :: "string \<Rightarrow> string" where
  "trim s = rev (dropWhile js_whitespace (rev (dropWhile js_whitespace s)))"

text \<open>\<open>s.split(",")\<close>: the empty string gives one empty piece.\<close>

fun split_comma :: "string \<Rightarrow> string list" where
  "split_comma [] = [[]]"
| "split_comma (c # cs) =
     (if c = CHR '','' then [] # split_comma cs
      else (case split_comma cs of
              [] \<Rightarrow> [[c]]
            | w # ws \<Rightarrow> (c # w) # ws))"

subsection \<open>Number(v)\<close>

text \<open>
  The value of a digit in bases up to 16; 16 for a character that is no digit.
\<close>

definition digit_value :: "char \<Rightarrow> nat" where
  "digit_value c =
     (let n = (of_char c :: nat) in
      if 48 \<le> n \<and> n \<le> 57 then n - 48
      else if 97 \<le> n \<and> n \<le> 102 then n - 87
      else if 65 \<le> n \<and> n \<le> 70 then n - 55
      else 16)"

definition is_digit :: "nat \<Rightarrow> char \<Rightarrow> bool" where
  "is_digit b c \<longleftrightarrow> digit_value c < b"

definition digits_value :: "nat \<Rightarrow> string \<Rightarrow> nat" where
  "digits_value b s = foldl (\<lambda>a c. a * b + digit_value c) 0 s"

definition all_digits :: "nat \<Rightarrow> string \<Rightarrow> bool" where
  "all_digits b s \<longleftrightarrow> s \<noteq> [] \<and> list_all (is_digit b) s"

text \<open>\<open>m * 10 ^ e\<close> for an integer exponent.\<close>

definition scale10 :: "nat \<Rightarrow> int \<Rightarrow> rat" where
  "scale10 m e = (if 0 \<le> e then of_nat m * 10 ^ nat e else of_nat m / 10 ^ nat (- e))"

text \<open>ExponentPart of the grammar, with the empty string for its absence.\<close>

definition ExponentPart :: "string \<Rightarrow> int option" where
  "ExponentPart s =
     (case s of
        [] \<Rightarrow> Some 0
      | c # t \<Rightarrow>
          if c = CHR ''e'' \<or> c = CHR ''E'' then
            (case t of
               [] \<Rightarrow> None
             | d # u \<Rightarrow>
                 if d = CHR ''+'' then
                   (if all_digits 10 u then Some (int (digits_value 10 u)) else None)
                 else if d = CHR ''-'' then
                   (if all_digits 10 u then Some (- int (digits_value 10 u)) else None)
                 else if all_digits 10 t then Some (int (digits_value 10 t)) else None)
          else None)"

text \<open>
  StrUnsignedDecimalLiteral: \<open>Infinity\<close>, or digits with an optional fraction and
  exponent, where the digits before or after the point may be missing but not both.
\<close>

definition StrUnsignedDecimalLiteral :: "string \<Rightarrow> js_number option" where
  "StrUnsignedDecimalLiteral s =
     (if s = ''Infinity'' then Some PosInfinity
      else
        let ip = takeWhile (is_digit 10) s;
            r1 = dropWhile (is_digit 10) s;
            dot = (r1 \<noteq> [] \<and> hd r1 = CHR ''.'');
            fp = (if dot then takeWhile (is_digit 10) (tl r1) else []);
            r2 = (if dot then dropWhile (is_digit 10) (tl r1) else r1)
        in if ip = [] \<and> fp = [] then None
           else (case ExponentPart r2 of
                   None \<Rightarrow> None
                 | Some e \<Rightarrow>
                     Some (Finite (scale10 (digits_value 10 (ip @ fp)) (e - int (length fp))))))"

definition negate :: "js_number \<Rightarrow> js_number" where
  "negate n =
     (case n of
        NaN \<Rightarrow> NaN
      | PosInfinity \<Rightarrow> NegInfinity
      | NegInfinity \<Rightarrow> PosInfinity
      | Finite q \<Rightarrow> Finite (- q))"

definition StrDecimalLiteral :: "string \<Rightarrow> js_number option" where
  "StrDecimalLiteral s =
     (case s of
        [] \<Rightarrow> None
      | c # t \<Rightarrow>
          if c = CHR ''+'' then StrUnsignedDecimalLiteral t
          else if c = CHR ''-'' then map_option negate (StrUnsignedDecimalLiteral t)
          else StrUnsignedDecimalLiteral s)"

text \<open>NonDecimalIntegerLiteral: \<open>0b\<close>, \<open>0o\<close> and \<open>0x\<close> prefixes, unsigned.\<close>

definition NonDecimalIntegerLiteral :: "string \<Rightarrow> js_number option" where
  "NonDecimalIntegerLiteral s =
     (case s of
        z # p # ds \<Rightarrow>
          if z \<noteq> CHR ''0'' then None
          else
            let b = (if p = CHR ''b'' \<or> p = CHR ''B'' then 2
                     else if p = CHR ''o'' \<or> p = CHR ''O'' then 8
                     else if p = CHR ''x'' \<or> p = CHR ''X'' then 16
                     else (0::nat))
            in if b \<noteq> 0 \<and> all_digits b ds then Some (Finite (of_nat (digits_value b ds)))
               else None
      | _ \<Rightarrow> None)"

definition StrNumericLiteral :: "string \<Rightarrow> js_number option" where
  "StrNumericLiteral s =
     (case NonDecimalIntegerLiteral s of
        Some n \<Rightarrow> Some n
      | None \<Rightarrow> StrDecimalLiteral s)"

text \<open>
  StringToNumber: white space around the literal is dropped, the empty string is 0, and
  a string that is no numeric literal is NaN.
\<close>

definition StringToNumber :: "string \<Rightarrow> js_number" where
  "StringToNumber s =
     (let t = trim s in
      if t = [] then Finite 0
      else (case StrNumericLiteral t of None \<Rightarrow> NaN | Some n \<Rightarrow> n))"

text \<open>
  \<open>Number(v)\<close> on a value that came out of \<open>JSON.parse\<close>. An object or an array is
  first converted to a primitive. A parsed object has no callable property of its own,
  so an own key \<open>toString\<close> hides \<open>Object.prototype.toString\<close> and the conversion
  throws a TypeError; without it the object reads \<open>[object Object]\<close>, which is NaN.
  An array is joined with commas: no element is 0, one element is the number of that
  element's string (\<open>null\<close> and \<open>undefined\<close> read as the empty string), and two or
  more elements contain a comma, which no numeric literal has.
\<close>

fun toString_throws :: "jsval \<Rightarrow> bool" where
  "toString_throws (JObj kvs) = (''toString'' \<in> fst ` set kvs)"
| "toString_throws (JArr xs) = list_ex toString_throws xs"
| "toString_throws v = False"

fun Number :: "jsval \<Rightarrow> js_error + js_number" where
  "Number JUndefined = Inr NaN"
| "Number JNull = Inr (Finite 0)"
| "Number (JBool b) = Inr (Finite (if b then 1 else 0))"
| "Number (JNum n) = Inr n"
| "Number (JStr s) = Inr (StringToNumber s)"
| "Number (JObj kvs) = (if toString_throws (JObj kvs) then Inl TypeError else Inr NaN)"
| "Number (JArr []) = Inr (Finite 0)"
| "Number (JArr [x]) =
     (if toString_throws x then Inl TypeError
      else (case x of
              JUndefined \<Rightarrow> Inr (Finite 0)
            | JNull \<Rightarrow> Inr (Finite 0)
            | JBool b \<Rightarrow> Inr NaN
            | JNum n \<Rightarrow> Inr n
            | JStr s \<Rightarrow> Inr (StringToNumber s)
            | JArr ys \<Rightarrow> Number (JArr ys)
            | JObj kvs \<Rightarrow> Inr NaN))"
| "Number (JArr (x # y # zs)) =
     (if list_ex toString_throws (x # y # zs) then Inl TypeError else Inr NaN)"

text \<open>A non-negative integer in a template literal: its decimal digits.\<close>

fun show_nat :: "nat \<Rightarrow> string" where
  "show_nat n =
     (if n < 10 then [''0123456789'' ! n]
      else show_nat (n div 10) @ [''0123456789'' ! (n mod 10)])"

declare show_nat.simps [simp del]

section \<open>The parsed diff\<close>

text \<open>
  The records that \<open>parseDiff\<close> of the library parse-diff returns, as the program reads
  them. A change is one of three shapes: an addition and a deletion carry their line
  number in \<open>ln\<close> (new side for an addition, original side for a deletion), an unchanged
  line carries \<open>ln1\<close> (original side) and \<open>ln2\<close> (new side). At run time a change is
  an object whose fields may be missing, hence the options. Line numbers are the
  non-negative integers the parser counts.
\<close>

datatype change_type = Normal | Add | Del

record change =
  type_c :: change_type
  ln_c :: "nat option"
  ln1 :: "nat option"
  ln2 :: "nat option"
  content :: string

definition AddChange :: "nat \<Rightarrow> string \<Rightarrow> change" where
  "AddChange n s = \<lparr>type_c = Add, ln_c = Some n, ln1 = None, ln2 = None, content = s\<rparr>"

definition DeleteChange :: "nat \<Rightarrow> string \<Rightarrow> change" where
  "DeleteChange n s = \<lparr>type_c = Del, ln_c = Some n, ln1 = None, ln2 = None, content = s\<rparr>"

definition NormalChange :: "nat \<Rightarrow> nat \<Rightarrow> string \<Rightarrow> change" where
  "NormalChange m n s = \<lparr>type_c = Normal, ln_c = None, ln1 = Some m, ln2 = Some n, content = s\<rparr>"



record chunk =
  chunk_content :: string
  changes :: "change list"

record diff_file =
  to :: "string option"
  chunks :: "chunk list"

record PRDetails =
  owner :: string
  repo :: string
  pull_number :: nat
  title :: string
  description :: string

section \<open>createPrompt\<close>

text \<open>
  \<open>c.ln ? c.ln : c.ln2\<close>: the test is JavaScript truthiness, so a missing \<open>ln\<close> and
  an \<open>ln\<close> of 0 both fall through to \<open>ln2\<close>.
\<close>

definition line_number :: "change \<Rightarrow> nat option" where
  "line_number c =
     (case ln_c c of
        None \<Rightarrow> ln2 c
      | Some n \<Rightarrow> if n \<noteq> 0 then Some n else ln2 c)"

text \<open>A number or \<open>undefined\<close> inside a template literal.\<close>

definition template_number :: "nat option \<Rightarrow> string" where
  "template_number v = (case v of None \<Rightarrow> ''undefined'' | Some n \<Rightarrow> show_nat n)"

definition template_string :: "string option \<Rightarrow> string" where
  "template_string v = (case v of None \<Rightarrow> ''undefined'' | Some s \<Rightarrow> s)"

definition render_change :: "change \<Rightarrow> string" where
  "render_change c = template_number (line_number c) @ '' '' @ content c"

fun join :: "string \<Rightarrow> string list \<Rightarrow> string" where
  "join sep [] = []"
| "join sep [x] = x"
| "join sep (x # y # ys) = x @ sep @ join sep (y # ys)"

definition render_chunk :: "chunk \<Rightarrow> string" where
  "render_chunk ch =
     ''\<newline>'' @ chunk_content ch @ ''\<newline>'' @ join ''\<newline>'' (map render_change (changes ch))"

definition combinedChunks :: "chunk list \<Rightarrow> string" where
  "combinedChunks chs = join ''\<newline>'' (map render_chunk chs)"

definition prompt_instructions :: string where
  "prompt_instructions =
     ''\<newline>    Voc'' @ [CHR 0xEA] @ '' '' @ [CHR 0xE9] @ '' um Engenheiro de Software experiente e deve revisar um pull request para garantir c'' @ [CHR 0xF3] @ ''digo limpo, eficiente e seguindo boas pr'' @ [CHR 0xE1] @ ''ticas. Analise:\<newline>\<newline>    1. Qualidade: Verifique manutenibilidade e clareza. Simplifique onde poss'' @ [CHR 0xED] @ ''vel.\<newline>    2. L'' @ [CHR 0xF3] @ ''gica: Confirme a funcionalidade e identifique erros ou casos extremos.\<newline>    3. Desempenho: Sugira melhorias de uso de recursos e execu'' @ [CHR 0xE7] @ [CHR 0xE3] @ ''o.\<newline>    4. Seguran'' @ [CHR 0xE7] @ ''a: Identifique vulnerabilidades.\<newline>    5. Testes: Avalie cobertura e efic'' @ [CHR 0xE1] @ ''cia. Sugira testes adicionais, se necess'' @ [CHR 0xE1] @ ''rio.\<newline>    6. Documenta'' @ [CHR 0xE7] @ [CHR 0xE3] @ ''o: Verifique se est'' @ [CHR 0xE1] @ '' clara e precisa, mas n'' @ [CHR 0xE3] @ ''o sugira adicionar coment'' @ [CHR 0xE1] @ ''rios no c'' @ [CHR 0xF3] @ ''digo.\<newline>\<newline>    Formato da resposta: JSON no formato {'' @ [CHR 0x22] @ ''reviews'' @ [CHR 0x22] @ '': [{'' @ [CHR 0x22] @ ''lineNumber'' @ [CHR 0x22] @ '': '' @ [CHR 0x22] @ ''<n'' @ [CHR 0xFA] @ ''mero>'' @ [CHR 0x22] @ '', '' @ [CHR 0x22] @ ''reviewComment'' @ [CHR 0x22] @ '': '' @ [CHR 0x22] @ ''<coment'' @ [CHR 0xE1] @ ''rio>'' @ [CHR 0x22] @ ''}]}. S'' @ [CHR 0xF3] @ '' forne'' @ [CHR 0xE7] @ ''a sugest'' @ [CHR 0xF5] @ ''es de melhoria e comente uma vez por problema. Se n'' @ [CHR 0xE3] @ ''o houver melhorias, deixe '' @ [CHR 0x22] @ ''reviews'' @ [CHR 0x22] @ '' vazio.\<newline>\<newline>    Instru'' @ [CHR 0xE7] @ [CHR 0xF5] @ ''es:\<newline>    - Comente apenas arquivos de c'' @ [CHR 0xF3] @ ''digo, ignore configura'' @ [CHR 0xE7] @ [CHR 0xF5] @ ''es (.json, .yaml, .yml, .properties).\<newline>    - Feedback construtivo e espec'' @ [CHR 0xED] @ ''fico, em portugu'' @ [CHR 0xEA] @ ''s do Brasil.\<newline>\<newline>    Revise o seguinte diff de c'' @ [CHR 0xF3] @ ''digo no arquivo '' @ [CHR 0x22]"

definition createPrompt :: "diff_file \<Rightarrow> chunk list \<Rightarrow> PRDetails \<Rightarrow> string" where
  "createPrompt file chs prDetails =
     prompt_instructions @ template_string (to file)
     @ [CHR 0x22] @ '' e considere o t'' @ [CHR 0xED] @ ''tulo e a descri'' @ [CHR 0xE7] @ [CHR 0xE3] @ ''o do pull request ao escrever a resposta.\<newline>\<newline>    T'' @ [CHR 0xED] @ ''tulo do pull request: ''
     @ title prDetails
     @ ''\<newline>    Descri'' @ [CHR 0xE7] @ [CHR 0xE3] @ ''o do pull request:\<newline>\<newline>    ---\<newline>    ''
     @ description prDetails
     @ ''\<newline>    ---\<newline>\<newline>    Git diff para revis'' @ [CHR 0xE3] @ ''o:\<newline>\<newline>'' @ [CHR 0x60] @ [CHR 0x60] @ [CHR 0x60] @ ''diff\<newline>''
     @ combinedChunks chs
     @ ''\<newline>'' @ [CHR 0x60] @ [CHR 0x60] @ [CHR 0x60] @ ''\<newline>''"

section \<open>The run and its surroundings\<close>

text \<open>
  What the inference service gives for one call: the awaited \<open>create\<close> rejects (or
  \<open>response.choices[0]\<close> is missing, so that reading its \<open>message\<close> throws), or
  \<open>message?.content\<close> evaluates to a string or to nothing.
\<close>

datatype completion = Throws js_error | Content "string option"

record review_comment =
  body :: jsval
  path :: "string option"
  line :: js_number

record review =
  review_owner :: string
  review_repo :: string
  review_pull_number :: nat
  review_comments :: "review_comment list"
  review_event :: string

text \<open>
  Everything outside the program is a field of the environment: the outcome of
  \<open>getPRDetails\<close> and of \<open>getDiff\<close> (both only wrap a call of the host API), the
  parsed event payload, the action's \<open>exclude\<close> input, the libraries \<open>parseDiff\<close>
  and \<open>minimatch\<close> (taken as total functions), the inference service (its reply to
  the n-th call, given the prompt), \<open>JSON.parse\<close> on the reply, and whether the host
  accepts the review.
\<close>

record env =
  getPRDetails :: "js_error + PRDetails"
  eventData :: "js_error + jsval"
  GITHUB_EVENT_NAME :: "string option"
  getDiff :: "js_error + string option"
  parseDiff :: "string \<Rightarrow> diff_file list"
  exclude :: string
  minimatch :: "string \<Rightarrow> string \<Rightarrow> bool"
  completions :: "nat \<Rightarrow> string \<Rightarrow> completion"
  parse_reply :: "string \<Rightarrow> js_error + jsval"
  createReview :: "review \<Rightarrow> js_error option"

text \<open>
  The effects of a run: the inference calls made (each with the file it was made for),
  the console lines, and the calls of the submission boundary.
\<close>

datatype console_line = Log string | Error js_error

record world =
  calls :: "(diff_file \<times> string) list"
  console :: "console_line list"
  reviews :: "review list"

definition world0 :: world where
  "world0 = \<lparr>calls = [], console = [], reviews = []\<rparr>"

text \<open>
  \<open>JSON.parse\<close>: the environment's function, except on the literal \<open>{}\<close> that the
  program itself supplies, which is the empty object.
\<close>

definition JSON_parse :: "env \<Rightarrow> string \<Rightarrow> js_error + jsval" where
  "JSON_parse e s = (if s = ''{}'' then Inr (JObj []) else parse_reply e s)"

section \<open>getAIResponse\<close>

text \<open>
  The value returned for the n-th call and the lines written to the console. Every
  throw inside the \<open>try\<close> block ends in the handler, which logs and returns \<open>null\<close>.
  The result is whatever \<open>.reviews\<close> of the parsed reply is: nothing checks that it is
  an array.
\<close>

definition getAIResponse :: "env \<Rightarrow> nat \<Rightarrow> string \<Rightarrow> jsval \<times> console_line list" where
  "getAIResponse e n prompt =
     (case completions e n prompt of
        Throws err \<Rightarrow> (JNull, [Error err])
      | Content c \<Rightarrow>
          let t = (case c of None \<Rightarrow> [] | Some s \<Rightarrow> trim s);
              res = (if t = [] then ''{}'' else t)
          in (case JSON_parse e res of
                Inl err \<Rightarrow> (JNull, [Error err])
              | Inr v \<Rightarrow>
                  (case get_prop v ''reviews'' of
                     Inl err \<Rightarrow> (JNull, [Error err])
                   | Inr r \<Rightarrow> (r, []))))"

section \<open>analyzeCode\<close>

text \<open>\<open>xs.map(f)\<close> with a callback that may throw.\<close>

fun map_throwing :: "('a \<Rightarrow> js_error + 'b) \<Rightarrow> 'a list \<Rightarrow> js_error + 'b list" where
  "map_throwing f [] = Inr []"
| "map_throwing f (x # xs) =
     (case f x of
        Inl err \<Rightarrow> Inl err
      | Inr y \<Rightarrow>
          (case map_throwing f xs of
             Inl err \<Rightarrow> Inl err
           | Inr ys \<Rightarrow> Inr (y # ys)))"

text \<open>
  \<open>v.map(f)\<close> on a truthy value: only an array has a callable \<open>map\<close>; on anything else
  the call throws a TypeError.
\<close>

definition array_map :: "(jsval \<Rightarrow> js_error + 'b) \<Rightarrow> jsval \<Rightarrow> js_error + 'b list" where
  "array_map f v = (case v of JArr xs \<Rightarrow> map_throwing f xs | _ \<Rightarrow> Inl TypeError)"

text \<open>The callback of the \<open>map\<close> in \<open>analyzeCode\<close>.\<close>

definition newComment :: "diff_file \<Rightarrow> jsval \<Rightarrow> js_error + review_comment" where
  "newComment file aiComment =
     (case get_prop aiComment ''reviewComment'' of
        Inl err \<Rightarrow> Inl err
      | Inr b \<Rightarrow>
          (case get_prop aiComment ''lineNumber'' of
             Inl err \<Rightarrow> Inl err
           | Inr l \<Rightarrow>
               (case Number l of
                  Inl err \<Rightarrow> Inl err
                | Inr n \<Rightarrow> Inr \<lparr>body = b, path = to file, line = n\<rparr>)))"

text \<open>
  The loop over the files, with the comments collected so far. A throw leaves the loop
  with the effects made up to it.
\<close>

fun analyzeCode_loop ::
  "env \<Rightarrow> PRDetails \<Rightarrow> diff_file list \<Rightarrow> review_comment list \<Rightarrow> world
     \<Rightarrow> (js_error + review_comment list) \<times> world" where
  "analyzeCode_loop e prDetails [] comments w = (Inr comments, w)"
| "analyzeCode_loop e prDetails (file # rest) comments w =
     (if to file = Some ''/dev/null'' then analyzeCode_loop e prDetails rest comments w
      else
        let prompt = createPrompt file (chunks file) prDetails;
            r = getAIResponse e (length (calls w)) prompt;
            w' = w\<lparr>calls := calls w @ [(file, prompt)], console := console w @ snd r\<rparr>
        in if truthy (fst r) then
             (case array_map (newComment file) (fst r) of
                Inl err \<Rightarrow> (Inl err, w')
              | Inr newComments \<Rightarrow> analyzeCode_loop e prDetails rest (comments @ newComments) w')
           else analyzeCode_loop e prDetails rest comments w')"

definition analyzeCode ::
  "env \<Rightarrow> diff_file list \<Rightarrow> PRDetails \<Rightarrow> world \<Rightarrow> (js_error + review_comment list) \<times> world" where
  "analyzeCode e parsedDiff prDetails w = analyzeCode_loop e prDetails parsedDiff [] w"

section \<open>main\<close>

definition createReviewComment ::
  "env \<Rightarrow> string \<Rightarrow> string \<Rightarrow> nat \<Rightarrow> review_comment list \<Rightarrow> world \<Rightarrow> (js_error + unit) \<times> world" where
  "createReviewComment e ow rp num comments w =
     (let r = \<lparr>review_owner = ow, review_repo = rp, review_pull_number = num,
                review_comments = comments, review_event = ''COMMENT''\<rparr>;
          w' = w\<lparr>reviews := reviews w @ [r]\<rparr>
      in (case createReview e r of
            Some err \<Rightarrow> (Inl err, w')
          | None \<Rightarrow> (Inr (), w')))"

definition excludePatterns :: "env \<Rightarrow> string list" where
  "excludePatterns e = map trim (split_comma (exclude e))"

text \<open>The predicate of the \<open>filter\<close>: \<open>file.to ?? ""\<close> is matched against every pattern.\<close>

definition excluded :: "env \<Rightarrow> diff_file \<Rightarrow> bool" where
  "excluded e file \<longleftrightarrow>
     list_ex (\<lambda>pattern. minimatch e (case to file of None \<Rightarrow> [] | Some t \<Rightarrow> t) pattern)
       (excludePatterns e)"

definition filteredDiff :: "env \<Rightarrow> diff_file list \<Rightarrow> diff_file list" where
  "filteredDiff e parsedDiff = filter (\<lambda>file. \<not> excluded e file) parsedDiff"

definition main :: "env \<Rightarrow> world \<Rightarrow> (js_error + unit) \<times> world" where
  "main e w =
     (case getPRDetails e of
        Inl err \<Rightarrow> (Inl err, w)
      | Inr prDetails \<Rightarrow>
     (case eventData e of
        Inl err \<Rightarrow> (Inl err, w)
      | Inr ev \<Rightarrow>
     (case get_prop ev ''action'' of
        Inl err \<Rightarrow> (Inl err, w)
      | Inr action \<Rightarrow>
          if action = JStr ''opened'' \<or> action = JStr ''synchronize'' then
            (case getDiff e of
               Inl err \<Rightarrow> (Inl err, w)
             | Inr None \<Rightarrow> (Inr (), w\<lparr>console := console w @ [Log ''No diff found'']\<rparr>)
             | Inr (Some diff) \<Rightarrow>
                 if diff = [] then (Inr (), w\<lparr>console := console w @ [Log ''No diff found'']\<rparr>)
                 else
                   (case analyzeCode e (filteredDiff e (parseDiff e diff)) prDetails w of
                      (Inl err, w') \<Rightarrow> (Inl err, w')
                    | (Inr comments, w') \<Rightarrow>
                        if length comments > 0 then
                          createReviewComment e (owner prDetails) (repo prDetails)
                            (pull_number prDetails) comments w'
                        else (Inr (), w')))
          else
            (Inr (), w\<lparr>console := console w
               @ [Log (''Unsupported event: '' @ template_string (GITHUB_EVENT_NAME e))]\<rparr>))))"

text \<open>
  The process: \<open>main().catch\<close> logs the fault and exits with 1; a run that returns
  exits with 0.
\<close>

definition run :: "env \<Rightarrow> nat \<times> world" where
  "run e =
     (case main e world0 of
        (Inl err, w) \<Rightarrow> (1, w\<lparr>console := console w @ [Error err]\<rparr>)
      | (Inr u, w) \<Rightarrow> (0, w))"

section \<open>Notions used in the statements\<close>


text \<open>
  The files of a diff text for which the loop of \<open>analyzeCode\<close> goes past its first
  line: those that pass the filter of \<open>main\<close> and are not deleted.
\<close>

definition survivors :: "env \<Rightarrow> string \<Rightarrow> diff_file list" where
  "survivors e diff =
     filter (\<lambda>file. to file \<noteq> Some ''/dev/null'') (filteredDiff e (parseDiff e diff))"

text \<open>
  The findings that the i-th inference call, made for a file, returns, and the comments
  built from them.
\<close>

definition findings :: "env \<Rightarrow> PRDetails \<Rightarrow> nat \<Rightarrow> diff_file \<Rightarrow> jsval list" where
  "findings e prDetails i file =
     (case fst (getAIResponse e i (createPrompt file (chunks file) prDetails)) of
        JArr xs \<Rightarrow> xs
      | _ \<Rightarrow> [])"

definition file_comments :: "env \<Rightarrow> PRDetails \<Rightarrow> nat \<Rightarrow> diff_file \<Rightarrow> review_comment list" where
  "file_comments e prDetails i file =
     (case map_throwing (newComment file) (findings e prDetails i file) of
        Inl err \<Rightarrow> []
      | Inr cs \<Rightarrow> cs)"



section \<open>Example runs\<close>

text \<open>
  A diff of four files: \<open>a.ts\<close> with one added line, \<open>config.yaml\<close>, a deleted file
  and \<open>b.ts\<close>; and a file record without destination.
\<close>

definition file_a :: diff_file where
  "file_a = \<lparr>to = Some ''a.ts'', chunks = [\<lparr>chunk_content = ''@@ -1,2 +1,3 @@'',
     changes = [NormalChange 1 1 '' const a = 1;'', AddChange 2 ''+let b = a;'',
                NormalChange 2 3 '' export { a };'']\<rparr>]\<rparr>"

definition file_yaml :: diff_file where
  "file_yaml = \<lparr>to = Some ''config.yaml'', chunks = [\<lparr>chunk_content = ''@@ -3 +3 @@'',
     changes = [DeleteChange 3 ''-debug: true'', AddChange 3 ''+debug: false'']\<rparr>]\<rparr>"

definition file_deleted :: diff_file where
  "file_deleted = \<lparr>to = Some ''/dev/null'', chunks = [\<lparr>chunk_content = ''@@ -1 +0,0 @@'',
     changes = [DeleteChange 1 ''-old'']\<rparr>]\<rparr>"

definition file_b :: diff_file where
  "file_b = \<lparr>to = Some ''b.ts'', chunks = [\<lparr>chunk_content = ''@@ -0,0 +1 @@'',
     changes = [AddChange 1 ''+f(x)'']\<rparr>]\<rparr>"

definition file_unnamed :: diff_file where
  "file_unnamed = \<lparr>to = None, chunks = []\<rparr>"

text \<open>A change object that carries no line number at all, in a chunk of its own.\<close>

definition change_without_number :: change where
  "change_without_number =
     \<lparr>type_c = Add, ln_c = None, ln1 = None, ln2 = None, content = ''+x''\<rparr>"

definition chunk_without_number :: chunk where
  "chunk_without_number = \<lparr>chunk_content = ''@@ -1 +1 @@'', changes = [change_without_number]\<rparr>"

text \<open>
  A matcher for the examples. It decides the pattern \<open>*.yaml\<close> on paths without a
  slash and takes every other pattern literally; so it agrees with minimatch on the
  pairs the examples use, among them the empty pattern on the empty path, which
  minimatch accepts.
\<close>

definition example_minimatch :: "string \<Rightarrow> string \<Rightarrow> bool" where
  "example_minimatch p pattern =
     (if pattern = ''*.yaml''
      then 5 < length p \<and> drop (length p - 5) p = ''.yaml'' \<and> CHR ''/'' \<notin> set p
           \<and> hd p \<noteq> CHR ''.''
      else p = pattern)"

text \<open>Three replies of the inference service, and what \<open>JSON.parse\<close> makes of them.\<close>

definition reply_one_finding :: string where
  "reply_one_finding = ''{'' @ [CHR 0x22] @ ''reviews'' @ [CHR 0x22] @ '': [{'' @ [CHR 0x22] @ ''lineNumber'' @ [CHR 0x22] @ '': '' @ [CHR 0x22] @ ''2'' @ [CHR 0x22] @ '', '' @ [CHR 0x22] @ ''reviewComment'' @ [CHR 0x22] @ '': '' @ [CHR 0x22] @ ''Prefer const.'' @ [CHR 0x22] @ ''}]}''"

definition reply_two_findings :: string where
  "reply_two_findings = ''{'' @ [CHR 0x22] @ ''reviews'' @ [CHR 0x22] @ '': [{'' @ [CHR 0x22] @ ''lineNumber'' @ [CHR 0x22] @ '': '' @ [CHR 0x22] @ [CHR 0x22] @ '', '' @ [CHR 0x22] @ ''reviewComment'' @ [CHR 0x22] @ '': '' @ [CHR 0x22] @ ''Unused.'' @ [CHR 0x22] @ ''}, {'' @ [CHR 0x22] @ ''lineNumber'' @ [CHR 0x22] @ '': '' @ [CHR 0x22] @ ''top'' @ [CHR 0x22] @ '', '' @ [CHR 0x22] @ ''reviewComment'' @ [CHR 0x22] @ '': '' @ [CHR 0x22] @ ''Rename.'' @ [CHR 0x22] @ ''}]}''"

definition reply_reviews_no_array :: string where
  "reply_reviews_no_array = ''{'' @ [CHR 0x22] @ ''reviews'' @ [CHR 0x22] @ '': '' @ [CHR 0x22] @ ''none'' @ [CHR 0x22] @ ''}''"

definition example_parse_reply :: "string \<Rightarrow> js_error + jsval" where
  "example_parse_reply s =
     (if s = reply_one_finding then
        Inr (JObj [(''reviews'', JArr [JObj [(''lineNumber'', JStr ''2''),
                                            (''reviewComment'', JStr ''Prefer const.'')]])])
      else if s = reply_two_findings then
        Inr (JObj [(''reviews'', JArr [JObj [(''lineNumber'', JStr []),
                                            (''reviewComment'', JStr ''Unused.'')],
                                      JObj [(''lineNumber'', JStr ''top''),
                                            (''reviewComment'', JStr ''Rename.'')]])])
      else if s = reply_reviews_no_array then
        Inr (JObj [(''reviews'', JStr ''none'')])
      else Inl SyntaxError)"

definition example_completions :: "nat \<Rightarrow> string \<Rightarrow> completion" where
  "example_completions n prompt =
     (if n = 0 then Content (Some reply_one_finding) else Content (Some reply_two_findings))"

definition example_parseDiff :: "string \<Rightarrow> diff_file list" where
  "example_parseDiff diff = [file_a, file_yaml, file_deleted, file_b]"

definition example_createReview :: "review \<Rightarrow> js_error option" where
  "example_createReview r = None"

definition example_prDetails :: PRDetails where
  "example_prDetails =
     \<lparr>owner = ''acme'', repo = ''shop'', pull_number = 7, title = ''Add b'',
      description = ''See title.''\<rparr>"

definition example_diff :: string where
  "example_diff = ''diff --git a/a.ts b/a.ts''"

definition example_env :: env where
  "example_env =
     \<lparr>getPRDetails = Inr example_prDetails,
      eventData = Inr (JObj [(''action'', JStr ''opened''), (''number'', JNum (Finite 7))]),
      GITHUB_EVENT_NAME = Some ''pull_request'',
      getDiff = Inr (Some example_diff),
      parseDiff = example_parseDiff,
      exclude = ''*.yaml'',
      minimatch = example_minimatch,
      completions = example_completions,
      parse_reply = example_parse_reply,
      createReview = example_createReview\<rparr>"

text \<open>The same run when the second reply has a string where the array belongs.\<close>

definition no_array_completions :: "nat \<Rightarrow> string \<Rightarrow> completion" where
  "no_array_completions n prompt =
     (if n = 0 then Content (Some reply_one_finding) else Content (Some reply_reviews_no_array))"

definition no_array_env :: env where
  "no_array_env = example_env\<lparr>completions := no_array_completions\<rparr>"

text \<open>A closed pull request whose details the host refuses to give.\<close>

definition closed_env :: env where
  "closed_env = example_env\<lparr>getPRDetails := Inl HostError,
     eventData := Inr (JObj [(''action'', JStr ''closed'')])\<rparr>"

text \<open>A closed pull request, an empty diff, the default empty \<open>exclude\<close> input.\<close>

definition closed_ok_env :: env where
  "closed_ok_env = example_env\<lparr>eventData := Inr (JObj [(''action'', JStr ''closed'')])\<rparr>"

definition no_diff_env :: env where
  "no_diff_env = example_env\<lparr>getDiff := Inr None\<rparr>"

definition no_exclude_env :: env where
  "no_exclude_env = example_env\<lparr>exclude := []\<rparr>"

text \<open>A diff in which nothing survives: a configuration file and a deleted file.\<close>

definition nothing_left_parseDiff :: "string \<Rightarrow> diff_file list" where
  "nothing_left_parseDiff diff = [file_yaml, file_deleted]"

definition nothing_left_env :: env where
  "nothing_left_env = example_env\<lparr>parseDiff := nothing_left_parseDiff\<rparr>"

section \<open>Lists and strings\<close>

lemma map_throwing_Inr:
  "map_throwing f xs = Inr ys \<Longrightarrow> list_all2 (\<lambda>x y. f x = Inr y) xs ys"
  by (induction xs arbitrary: ys) (auto split: sum.splits)


lemma join_member:
  "x \<in> set xs \<Longrightarrow> \<exists>pre post. join sep xs = pre @ x @ post"
proof (induction sep xs rule: join.induct)
  case (1 sep)
  then show ?case by simp
next
  case (2 sep y)
  then have "join sep [y] = [] @ x @ []" by simp
  then show ?case by blast
next
  case (3 sep y z zs)
  show ?case
  proof (cases "x = y")
    case True
    then have "join sep (y # z # zs) = [] @ x @ (sep @ join sep (z # zs))" by simp
    then show ?thesis by blast
  next
    case False
    with 3 obtain pre post where "join sep (z # zs) = pre @ x @ post" by auto
    then have "join sep (y # z # zs) = (y @ sep @ pre) @ x @ post" by simp
    then show ?thesis by blast
  qed
qed



section \<open>The inference client\<close>

lemma getAIResponse_throws:
  "completions e n prompt = Throws err \<Longrightarrow> getAIResponse e n prompt = (JNull, [Error err])"
  by (simp add: getAIResponse_def)

lemma getAIResponse_unparseable:
  assumes "completions e n prompt = Content (Some s)" and "trim s \<noteq> []"
    and "JSON_parse e (trim s) = Inl err"
  shows "getAIResponse e n prompt = (JNull, [Error err])"
  using assms by (simp add: getAIResponse_def)

lemma getAIResponse_reviews_missing:
  assumes "completions e n prompt = Content (Some s)" and "trim s \<noteq> []"
    and "JSON_parse e (trim s) = Inr (JObj kvs)" and "map_of kvs ''reviews'' = None"
  shows "getAIResponse e n prompt = (JUndefined, [])"
  using assms by (simp add: getAIResponse_def)

lemma falsy_findings:
  "\<not> truthy (fst (getAIResponse e i (createPrompt file (chunks file) pr)))
   \<Longrightarrow> findings e pr i file = []"
  by (cases "fst (getAIResponse e i (createPrompt file (chunks file) pr))")
     (auto simp: findings_def)

lemma array_map_file_comments:
  "array_map (newComment file) (fst (getAIResponse e i (createPrompt file (chunks file) pr))) = Inr cs
   \<Longrightarrow> map_throwing (newComment file) (findings e pr i file) = Inr cs"
  by (auto simp: array_map_def findings_def file_comments_def split: jsval.splits)


section \<open>The loop of analyzeCode\<close>

lemma loop_reviews:
  "reviews (snd (analyzeCode_loop e pr fs cs w)) = reviews w"
  by (induction fs arbitrary: cs w) (auto simp: Let_def split: sum.splits)

lemma loop_reviews_pair:
  "analyzeCode_loop e pr fs cs w = (r, w') \<Longrightarrow> reviews w' = reviews w"
  using loop_reviews [of e pr fs cs w] by simp

lemma loop_calls:
  "set (calls (snd (analyzeCode_loop e pr fs cs w)))
     \<subseteq> set (calls w)
       \<union> (\<lambda>f. (f, createPrompt f (chunks f) pr)) ` {f \<in> set fs. to f \<noteq> Some ''/dev/null''}"
proof (induction fs arbitrary: cs w)
  case Nil
  show ?case by simp
next
  case (Cons f fs)
  show ?case
  proof (cases "to f = Some ''/dev/null''")
    case True
    with Cons.IH [of cs w] show ?thesis by auto
  next
    case False
    let ?p = "createPrompt f (chunks f) pr"
    let ?r = "getAIResponse e (length (calls w)) ?p"
    let ?w = "w\<lparr>calls := calls w @ [(f, ?p)], console := console w @ snd ?r\<rparr>"
    have step: "set (calls (snd (analyzeCode_loop e pr fs cs' ?w)))
        \<subseteq> set (calls w)
          \<union> (\<lambda>f. (f, createPrompt f (chunks f) pr)) ` {g \<in> set (f # fs). to g \<noteq> Some ''/dev/null''}"
      for cs'
      using Cons.IH [of cs' ?w] False by auto
    show ?thesis
    proof (cases "truthy (fst ?r)")
      case t: True
      show ?thesis
      proof (cases "array_map (newComment f) (fst ?r)")
        case (Inl err)
        with False t show ?thesis by (auto simp: Let_def)
      next
        case (Inr new)
        with False t step [of "cs @ new"] show ?thesis by (simp add: Let_def)
      qed
    next
      case f: False
      with False step [of cs] show ?thesis by (simp add: Let_def)
    qed
  qed
qed

lemma loop_calls_files:
  "fst ` set (calls (snd (analyzeCode_loop e pr fs cs w)))
     \<subseteq> fst ` set (calls w) \<union> {f \<in> set fs. to f \<noteq> Some ''/dev/null''}"
  using loop_calls [of e pr fs cs w] by force

lemma loop_deleted:
  "to file = Some ''/dev/null''
   \<Longrightarrow> analyzeCode_loop e pr (pre @ file # post) cs w = analyzeCode_loop e pr (pre @ post) cs w"
  by (induction pre arbitrary: cs w) (auto simp: Let_def split: sum.splits)

lemma loop_filter:
  "analyzeCode_loop e pr (filter (\<lambda>f. to f \<noteq> Some ''/dev/null'') fs) cs w
     = analyzeCode_loop e pr fs cs w"
  by (induction fs arbitrary: cs w) (auto simp: Let_def split: sum.splits)

lemma loop_concat:
  "analyzeCode_loop e pr fs cs w = (Inr cs', w')
   \<Longrightarrow> cs' = cs @ concat (map (\<lambda>(i, file). file_comments e pr i file)
                  (enumerate (length (calls w)) (filter (\<lambda>f. to f \<noteq> Some ''/dev/null'') fs)))"
proof (induction fs arbitrary: cs w)
  case Nil
  then show ?case by simp
next
  case (Cons f fs)
  show ?case
  proof (cases "to f = Some ''/dev/null''")
    case True
    with Cons show ?thesis by simp
  next
    case False
    let ?p = "createPrompt f (chunks f) pr"
    let ?r = "getAIResponse e (length (calls w)) ?p"
    let ?w = "w\<lparr>calls := calls w @ [(f, ?p)], console := console w @ snd ?r\<rparr>"
    have len: "length (calls ?w) = Suc (length (calls w))" by simp
    show ?thesis
    proof (cases "truthy (fst ?r)")
      case t: True
      show ?thesis
      proof (cases "array_map (newComment f) (fst ?r)")
        case (Inl err)
        with False t Cons.prems show ?thesis by (simp add: Let_def)
      next
        case (Inr new)
        with False t Cons.prems
        have "analyzeCode_loop e pr fs (cs @ new) ?w = (Inr cs', w')" by (simp add: Let_def)
        from Cons.IH [OF this] len
        have "cs' = (cs @ new) @ concat (map (\<lambda>(i, file). file_comments e pr i file)
                (enumerate (Suc (length (calls w))) (filter (\<lambda>f. to f \<noteq> Some ''/dev/null'') fs)))"
          by simp
        moreover have "file_comments e pr (length (calls w)) f = new"
          using array_map_file_comments [OF Inr] by (simp add: file_comments_def)
        ultimately show ?thesis using False by simp
      qed
    next
      case f: False
      with False Cons.prems
      have "analyzeCode_loop e pr fs cs ?w = (Inr cs', w')" by (simp add: Let_def)
      from Cons.IH [OF this] len
      have "cs' = cs @ concat (map (\<lambda>(i, file). file_comments e pr i file)
              (enumerate (Suc (length (calls w))) (filter (\<lambda>f. to f \<noteq> Some ''/dev/null'') fs)))"
        by simp
      moreover have "file_comments e pr (length (calls w)) f = []"
        using falsy_findings [OF f] by (simp add: file_comments_def)
      ultimately show ?thesis using False by simp
    qed
  qed
qed

lemma loop_each_finding:
  "analyzeCode_loop e pr fs cs w = (Inr cs', w')
   \<Longrightarrow> list_all (\<lambda>(i, file). list_all2 (\<lambda>x c. newComment file x = Inr c)
                     (findings e pr i file) (file_comments e pr i file))
         (enumerate (length (calls w)) (filter (\<lambda>f. to f \<noteq> Some ''/dev/null'') fs))"
proof (induction fs arbitrary: cs w)
  case Nil
  then show ?case by simp
next
  case (Cons f fs)
  show ?case
  proof (cases "to f = Some ''/dev/null''")
    case True
    with Cons show ?thesis by simp
  next
    case False
    let ?p = "createPrompt f (chunks f) pr"
    let ?r = "getAIResponse e (length (calls w)) ?p"
    let ?w = "w\<lparr>calls := calls w @ [(f, ?p)], console := console w @ snd ?r\<rparr>"
    have len: "length (calls ?w) = Suc (length (calls w))" by simp
    show ?thesis
    proof (cases "truthy (fst ?r)")
      case t: True
      show ?thesis
      proof (cases "array_map (newComment f) (fst ?r)")
        case (Inl err)
        with False t Cons.prems show ?thesis by (simp add: Let_def)
      next
        case (Inr new)
        with False t Cons.prems
        have "analyzeCode_loop e pr fs (cs @ new) ?w = (Inr cs', w')" by (simp add: Let_def)
        from Cons.IH [OF this] len
        have rest: "list_all (\<lambda>(i, file). list_all2 (\<lambda>x c. newComment file x = Inr c)
                     (findings e pr i file) (file_comments e pr i file))
                (enumerate (Suc (length (calls w))) (filter (\<lambda>f. to f \<noteq> Some ''/dev/null'') fs))"
          by simp
        have m: "map_throwing (newComment f) (findings e pr (length (calls w)) f) = Inr new"
          using array_map_file_comments [OF Inr] .
        then have "file_comments e pr (length (calls w)) f = new"
          by (simp add: file_comments_def)
        with map_throwing_Inr [OF m] rest False show ?thesis by simp
      qed
    next
      case f: False
      with False Cons.prems
      have "analyzeCode_loop e pr fs cs ?w = (Inr cs', w')" by (simp add: Let_def)
      from Cons.IH [OF this] len
      have rest: "list_all (\<lambda>(i, file). list_all2 (\<lambda>x c. newComment file x = Inr c)
                     (findings e pr i file) (file_comments e pr i file))
                (enumerate (Suc (length (calls w))) (filter (\<lambda>f. to f \<noteq> Some ''/dev/null'') fs))"
        by simp
      have "findings e pr (length (calls w)) f = []"
        using falsy_findings [OF f] .
      then have "file_comments e pr (length (calls w)) f = []"
        "findings e pr (length (calls w)) f = []"
        by (simp_all add: file_comments_def)
      with rest False show ?thesis by simp
    qed
  qed
qed

lemma analyzeCode_loop_failed_call:
  assumes "to file \<noteq> Some ''/dev/null''"
    and "\<not> truthy (fst (getAIResponse e (length (calls w)) (createPrompt file (chunks file) pr)))"
  shows "fst (analyzeCode_loop e pr (file # rest) comments w)
           = fst (analyzeCode_loop e pr rest comments
                   (w\<lparr>calls := calls w @ [(file, createPrompt file (chunks file) pr)],
                      console := console w
                        @ snd (getAIResponse e (length (calls w)) (createPrompt file (chunks file) pr))\<rparr>))"
  using assms by (simp add: Let_def)

lemma analyzeCode_loop_no_array:
  assumes "to file \<noteq> Some ''/dev/null''"
    and "truthy (fst (getAIResponse e (length (calls w)) (createPrompt file (chunks file) pr)))"
    and "findings e pr (length (calls w)) file = []"
    and "fst (getAIResponse e (length (calls w)) (createPrompt file (chunks file) pr)) \<noteq> JArr []"
  shows "fst (analyzeCode_loop e pr (file # rest) comments w) = Inl TypeError"
  using assms
  by (auto simp: Let_def findings_def array_map_def split: jsval.splits)

lemma analyzeCode_no_survivor:
  assumes "survivors e d = []"
  shows "analyzeCode e (filteredDiff e (parseDiff e d)) pr w = (Inr [], w)"
proof -
  have "analyzeCode e (filteredDiff e (parseDiff e d)) pr w
          = analyzeCode_loop e pr (survivors e d) [] w"
    by (simp add: analyzeCode_def survivors_def loop_filter)
  with assms show ?thesis by simp
qed

section \<open>The run\<close>

lemma run_calls: "calls (snd (run e)) = calls (snd (main e world0))"
  by (simp add: run_def split: prod.splits sum.splits)

lemma run_reviews: "reviews (snd (run e)) = reviews (snd (main e world0))"
  by (simp add: run_def split: prod.splits sum.splits)

lemma main_calls:
  "calls (snd (main e world0)) = []
   \<or> (\<exists>pr d. getPRDetails e = Inr pr \<and> getDiff e = Inr (Some d)
        \<and> calls (snd (main e world0))
            = calls (snd (analyzeCode e (filteredDiff e (parseDiff e d)) pr world0)))"
  by (auto simp: main_def createReviewComment_def Let_def world0_def
           split: sum.splits option.splits prod.splits if_splits)

lemma main_reviews:
  "reviews (snd (main e world0)) = []
   \<or> (\<exists>pr d cs w'. getPRDetails e = Inr pr \<and> getDiff e = Inr (Some d)
        \<and> analyzeCode e (filteredDiff e (parseDiff e d)) pr world0 = (Inr cs, w')
        \<and> cs \<noteq> []
        \<and> reviews (snd (main e world0))
            = [\<lparr>review_owner = owner pr, review_repo = repo pr,
                review_pull_number = pull_number pr, review_comments = cs,
                review_event = ''COMMENT''\<rparr>])"
  by (auto simp: main_def createReviewComment_def Let_def world0_def analyzeCode_def
           dest: loop_reviews_pair
           split: sum.splits option.splits prod.splits if_splits)

lemma main_calls_files:
  assumes "f \<in> fst ` set (calls (snd (main e world0)))"
  shows "\<not> excluded e f \<and> to f \<noteq> Some ''/dev/null''"
proof -
  from assms main_calls [of e] obtain pr d where
    "f \<in> fst ` set (calls (snd (analyzeCode e (filteredDiff e (parseDiff e d)) pr world0)))"
    by force
  with loop_calls_files [of e pr "filteredDiff e (parseDiff e d)" "[]" world0]
  have "f \<in> set (filteredDiff e (parseDiff e d)) \<and> to f \<noteq> Some ''/dev/null''"
    by (auto simp: analyzeCode_def world0_def)
  then show ?thesis by (simp add: filteredDiff_def)
qed

lemma createPrompt_contains_change:
  assumes "ch \<in> set chs" and "c \<in> set (changes ch)"
  shows "\<exists>pre post. createPrompt file chs prDetails = pre @ render_change c @ post"
proof -
  from assms(2) have "render_change c \<in> set (map render_change (changes ch))" by simp
  from join_member [OF this] obtain p1 q1 where
    "join ''\<newline>'' (map render_change (changes ch)) = p1 @ render_change c @ q1" by blast
  then have rc: "render_chunk ch = (''\<newline>'' @ chunk_content ch @ ''\<newline>'' @ p1) @ render_change c @ q1"
    by (simp add: render_chunk_def)
  from assms(1) have "render_chunk ch \<in> set (map render_chunk chs)" by simp
  from join_member [OF this] obtain p2 q2 where
    "combinedChunks chs = p2 @ render_chunk ch @ q2" unfolding combinedChunks_def by blast
  with rc have cc: "combinedChunks chs = (p2 @ ''\<newline>'' @ chunk_content ch @ ''\<newline>'' @ p1) @ render_change c @ (q1 @ q2)"
    by simp
  obtain pa pz where "createPrompt file chs prDetails = pa @ combinedChunks chs @ pz"
    unfolding createPrompt_def by (metis append.assoc)
  with cc have "createPrompt file chs prDetails
      = (pa @ p2 @ ''\<newline>'' @ chunk_content ch @ ''\<newline>'' @ p1) @ render_change c @ (q1 @ q2 @ pz)"
    by simp
  then show ?thesis by blast
qed

section \<open>Failure of one inference call\<close>

text \<open>
  Claim C1 (a failed or malformed reply costs only its own file). The handler in
  \<open>getAIResponse\<close> catches a rejected call and a reply that does not parse, as the three
  lemmas above show. It does not check what \<open>.reviews\<close> is. In the run below the second
  reply is \<open>{"reviews": "none"}\<close>: the string is truthy, \<open>aiResponse.map\<close> is not a
  function, the TypeError leaves \<open>analyzeCode\<close>, the process exits with 1, and the
  comment already built for \<open>a.ts\<close> is never submitted.
\<close>

theorem reviews_that_is_no_array_aborts_the_run:
  "fst (run no_array_env) = 1
   \<and> map fst (calls (snd (run no_array_env))) = [file_a, file_b]
   \<and> console (snd (run no_array_env)) = [Error TypeError]
   \<and> reviews (snd (run no_array_env)) = []"
  by code_simp

section \<open>Line labels in the prompt\<close>




text \<open>
  Claim C6, as amended: no change is skipped when the prompt is compiled. Every change
  of every chunk has its rendered line in the prompt, and a change that carries neither
  \<open>ln\<close> nor \<open>ln2\<close> is rendered with the label \<open>undefined\<close>.
\<close>

theorem every_change_is_rendered:
  assumes "ch \<in> set chs" and "c \<in> set (changes ch)"
  shows "(\<exists>pre post. createPrompt file chs prDetails = pre @ render_change c @ post)
         \<and> (ln_c c = None \<and> ln2 c = None \<longrightarrow> render_change c = ''undefined '' @ content c)"
  using createPrompt_contains_change [OF assms]
  by (auto simp: render_change_def line_number_def template_number_def)

text \<open>
  Claim C6, an instance: a chunk whose only change has no line number.
\<close>

theorem every_change_is_rendered_witness:
  "chunk_without_number \<in> set [chunk_without_number]
   \<and> change_without_number \<in> set (changes chunk_without_number)
   \<and> ln_c change_without_number = None \<and> ln2 change_without_number = None
   \<and> (\<exists>pre post. createPrompt file_a [chunk_without_number] example_prDetails
          = pre @ render_change change_without_number @ post)
   \<and> render_change change_without_number = ''undefined +x''"
proof -
  have a: "chunk_without_number \<in> set [chunk_without_number]" by simp
  have b: "change_without_number \<in> set (changes chunk_without_number)"
    by (simp add: chunk_without_number_def)
  have n: "ln_c change_without_number = None \<and> ln2 change_without_number = None"
    by (simp add: change_without_number_def)
  have c: "content change_without_number = ''+x''"
    by (simp add: change_without_number_def)
  from every_change_is_rendered [OF a b, of file_a example_prDetails] n
  have e: "\<exists>pre post. createPrompt file_a [chunk_without_number] example_prDetails
             = pre @ render_change change_without_number @ post"
    and r: "render_change change_without_number = ''undefined '' @ content change_without_number"
    by blast+
  from r c have "render_change change_without_number = ''undefined +x''" by simp
  with a b n e show ?thesis by blast
qed

text \<open>
  Claim C6 as stated fails: the change without line number is rendered, with the label
  \<open>undefined\<close>.
\<close>

theorem change_without_number_is_not_skipped:
  "ln_c change_without_number = None \<and> ln2 change_without_number = None
   \<and> combinedChunks [chunk_without_number] = ''\<newline>@@ -1 +1 @@\<newline>undefined +x''"
  by code_simp

section \<open>Filtering\<close>



text \<open>
  Claim C4: a file whose destination is \<open>/dev/null\<close> gets no inference call in any
  run, whatever the exclusion patterns are, and taking it out of the sequence given to
  \<open>analyzeCode\<close> changes neither the comments returned nor any effect.
\<close>

theorem deleted_file_contributes_nothing:
  assumes "to file = Some ''/dev/null''"
  shows "file \<notin> fst ` set (calls (snd (run e)))
         \<and> analyzeCode e (pre @ file # post) prDetails w = analyzeCode e (pre @ post) prDetails w"
proof
  show "file \<notin> fst ` set (calls (snd (run e)))"
    using assms main_calls_files [of "file" e] by (auto simp: run_calls)
  show "analyzeCode e (pre @ file # post) prDetails w = analyzeCode e (pre @ post) prDetails w"
    using assms by (simp add: analyzeCode_def loop_deleted)
qed

text \<open>
  Claim C4, an instance: the deleted file between \<open>a.ts\<close> and \<open>b.ts\<close>.
\<close>

theorem deleted_file_contributes_nothing_witness:
  "to file_deleted = Some ''/dev/null''
   \<and> file_deleted \<notin> fst ` set (calls (snd (run example_env)))
   \<and> analyzeCode example_env ([file_a] @ file_deleted # [file_b]) example_prDetails world0
       = analyzeCode example_env ([file_a] @ [file_b]) example_prDetails world0"
proof -
  have a: "to file_deleted = Some ''/dev/null''" by (simp add: file_deleted_def)
  from deleted_file_contributes_nothing [OF a, of example_env "[file_a]" "[file_b]" example_prDetails world0] a
  show ?thesis by simp
qed

text \<open>
  Claim C7, as amended: a file whose destination is undefined or empty is matched as
  the empty path. It is excluded exactly when the matcher accepts the empty path for
  some configured pattern; the program has no rule of its own for such a file. An empty
  \<open>exclude\<close> input configures one pattern, the empty string.
\<close>

theorem unnamed_file_is_matched_as_the_empty_path:
  assumes "to file = None \<or> to file = Some []"
  shows "(excluded e file \<longleftrightarrow> list_ex (minimatch e []) (excludePatterns e))
         \<and> (file \<in> set (filteredDiff e parsedDiff)
              \<longleftrightarrow> file \<in> set parsedDiff \<and> \<not> list_ex (minimatch e []) (excludePatterns e))
         \<and> excludePatterns (e\<lparr>exclude := []\<rparr>) = [[]]"
  using assms
  by (auto simp: excluded_def filteredDiff_def excludePatterns_def trim_def)

text \<open>
  Claim C7, an instance: the file without destination under the empty \<open>exclude\<close> input.
\<close>

theorem unnamed_file_is_matched_as_the_empty_path_witness:
  "(to file_unnamed = None \<or> to file_unnamed = Some [])
   \<and> file_unnamed \<in> set [file_unnamed, file_a]
   \<and> list_ex (minimatch no_exclude_env []) (excludePatterns no_exclude_env)
   \<and> file_unnamed \<notin> set (filteredDiff no_exclude_env [file_unnamed, file_a])"
proof -
  have a: "to file_unnamed = None \<or> to file_unnamed = Some []"
    by (simp add: file_unnamed_def)
  have m: "list_ex (minimatch no_exclude_env []) (excludePatterns no_exclude_env)"
    by code_simp
  from unnamed_file_is_matched_as_the_empty_path [OF a, of no_exclude_env "[file_unnamed, file_a]"] a m
  show ?thesis by simp
qed

text \<open>
  Claim C7 as stated fails for a matcher that, like minimatch, accepts the empty path
  for the empty pattern: with an empty \<open>exclude\<close> input the file without destination is
  filtered out.
\<close>

theorem unnamed_file_excluded_by_empty_configuration:
  "to file_unnamed = None \<and> exclude no_exclude_env = []
   \<and> excludePatterns no_exclude_env = [[]]
   \<and> filteredDiff no_exclude_env [file_unnamed] = []"
  by code_simp

section \<open>Submission\<close>

text \<open>
  Claim C5: a run calls the submission boundary at most once, a submitted review has at
  least one comment, and when no file of the diff survives the filter and the deletion
  test, \<open>analyzeCode\<close> returns no comment and the run makes no inference call and no
  submission.
\<close>

theorem submission_at_most_once_and_never_empty:
  "length (reviews (snd (run e))) \<le> 1
   \<and> (rv \<in> set (reviews (snd (run e))) \<longrightarrow> review_comments rv \<noteq> [])
   \<and> (getDiff e = Inr (Some d) \<and> survivors e d = [] \<longrightarrow>
        analyzeCode e (filteredDiff e (parseDiff e d)) prDetails w = (Inr [], w)
        \<and> calls (snd (run e)) = [] \<and> reviews (snd (run e)) = [])"
proof (intro conjI impI)
  show "length (reviews (snd (run e))) \<le> 1"
    using main_reviews [of e] by (auto simp: run_reviews)
  show "review_comments rv \<noteq> []" if "rv \<in> set (reviews (snd (run e)))"
    using that main_reviews [of e] by (auto simp: run_reviews)
next
  assume a: "getDiff e = Inr (Some d) \<and> survivors e d = []"
  then show "analyzeCode e (filteredDiff e (parseDiff e d)) prDetails w = (Inr [], w)"
    by (simp add: analyzeCode_no_survivor)
  from a show "calls (snd (run e)) = []"
    using main_calls [of e] by (auto simp: run_calls analyzeCode_no_survivor world0_def)
  from a show "reviews (snd (run e)) = []"
    using main_reviews [of e] by (auto simp: run_reviews analyzeCode_no_survivor)
qed

text \<open>
  Claim C5, two instances: the example run, which submits one review, and a diff of a
  configuration file and a deleted file, which submits none.
\<close>

theorem submission_at_most_once_and_never_empty_witness:
  "hd (reviews (snd (run example_env))) \<in> set (reviews (snd (run example_env)))
   \<and> review_comments (hd (reviews (snd (run example_env)))) \<noteq> []
   \<and> length (reviews (snd (run example_env))) \<le> 1
   \<and> getDiff nothing_left_env = Inr (Some example_diff)
   \<and> survivors nothing_left_env example_diff = []
   \<and> calls (snd (run nothing_left_env)) = []
   \<and> reviews (snd (run nothing_left_env)) = []"
proof -
  have a: "hd (reviews (snd (run example_env))) \<in> set (reviews (snd (run example_env)))"
    by code_simp
  have b: "getDiff nothing_left_env = Inr (Some example_diff)"
    by (simp add: nothing_left_env_def example_env_def)
  have c: "survivors nothing_left_env example_diff = []"
    by code_simp
  from submission_at_most_once_and_never_empty
         [of example_env "hd (reviews (snd (run example_env)))" example_diff example_prDetails world0]
       submission_at_most_once_and_never_empty
         [of nothing_left_env "hd (reviews (snd (run example_env)))" example_diff example_prDetails world0]
       a b c
  show ?thesis by simp
qed

text \<open>
  Claim C8: the submitted comments are the concatenation, over the surviving files in
  their order in the parsed diff, of each file's comments; the i-th surviving file is
  the subject of the i-th inference call, and its comments correspond one to one, in
  order, to the findings that call returned.
\<close>

theorem submitted_comments_in_processing_order:
  assumes "getPRDetails e = Inr prDetails" and "getDiff e = Inr (Some d)"
    and "rv \<in> set (reviews (snd (run e)))"
  shows "review_comments rv
           = concat (map (\<lambda>(i, file). file_comments e prDetails i file)
                       (enumerate 0 (survivors e d)))
         \<and> list_all (\<lambda>(i, file). list_all2 (\<lambda>x c. newComment file x = Inr c)
                       (findings e prDetails i file) (file_comments e prDetails i file))
             (enumerate 0 (survivors e d))"
proof -
  from assms main_reviews [of e] obtain cs w' where
    an: "analyzeCode e (filteredDiff e (parseDiff e d)) prDetails world0 = (Inr cs, w')"
    and rv: "review_comments rv = cs"
    by (auto simp: run_reviews)
  from an have l: "analyzeCode_loop e prDetails (filteredDiff e (parseDiff e d)) [] world0 = (Inr cs, w')"
    by (simp add: analyzeCode_def)
  have c0: "length (calls world0) = 0" by (simp add: world0_def)
  from loop_concat [OF l] loop_each_finding [OF l] rv show ?thesis
    by (simp add: c0 survivors_def)
qed

text \<open>
  Claim C8, an instance: one finding for \<open>a.ts\<close>, then two for \<open>b.ts\<close>.
\<close>

theorem submitted_comments_in_processing_order_witness:
  "getPRDetails example_env = Inr example_prDetails
   \<and> getDiff example_env = Inr (Some example_diff)
   \<and> hd (reviews (snd (run example_env))) \<in> set (reviews (snd (run example_env)))
   \<and> map fst (enumerate 0 (survivors example_env example_diff)) = [0, 1]
   \<and> map (to \<circ> snd) (enumerate 0 (survivors example_env example_diff)) = [Some ''a.ts'', Some ''b.ts'']
   \<and> review_comments (hd (reviews (snd (run example_env))))
       = concat (map (\<lambda>(i, file). file_comments example_env example_prDetails i file)
                   (enumerate 0 (survivors example_env example_diff)))
   \<and> review_comments (hd (reviews (snd (run example_env))))
       = [\<lparr>body = JStr ''Prefer const.'', path = Some ''a.ts'', line = Finite 2\<rparr>,
          \<lparr>body = JStr ''Unused.'', path = Some ''b.ts'', line = Finite 0\<rparr>,
          \<lparr>body = JStr ''Rename.'', path = Some ''b.ts'', line = NaN\<rparr>]"
proof -
  have a: "getPRDetails example_env = Inr example_prDetails"
    and b: "getDiff example_env = Inr (Some example_diff)"
    by (simp_all add: example_env_def)
  have c: "hd (reviews (snd (run example_env))) \<in> set (reviews (snd (run example_env)))"
    by code_simp
  have d: "map fst (enumerate 0 (survivors example_env example_diff)) = [0, 1]"
    by code_simp
  have e: "map (to \<circ> snd) (enumerate 0 (survivors example_env example_diff)) = [Some ''a.ts'', Some ''b.ts'']"
    by code_simp
  have f: "review_comments (hd (reviews (snd (run example_env))))
       = [\<lparr>body = JStr ''Prefer const.'', path = Some ''a.ts'', line = Finite 2\<rparr>,
          \<lparr>body = JStr ''Unused.'', path = Some ''b.ts'', line = Finite 0\<rparr>,
          \<lparr>body = JStr ''Rename.'', path = Some ''b.ts'', line = NaN\<rparr>]"
    by code_simp
  from submitted_comments_in_processing_order [OF a b c] a b c d e f
  show ?thesis by simp
qed



section \<open>Early exits\<close>

text \<open>
  Claim C9, as amended: in a run in which \<open>getPRDetails\<close> and the read of the event
  payload succeed, an action other than \<open>opened\<close> and \<open>synchronize\<close> ends the run with
  one logged line and exit code 0, and so does a supported action when \<open>getDiff\<close>
  returns \<open>null\<close> or the empty string; in both cases there is no inference call and no
  submission.
\<close>

theorem no_op_exit_after_metadata_and_event_are_read:
  assumes "getPRDetails e = Inr prDetails" and "eventData e = Inr ev"
    and "get_prop ev ''action'' = Inr action"
  shows "(action \<noteq> JStr ''opened'' \<and> action \<noteq> JStr ''synchronize'' \<longrightarrow>
            run e = (0, \<lparr>calls = [],
                         console = [Log (''Unsupported event: '' @ template_string (GITHUB_EVENT_NAME e))],
                         reviews = []\<rparr>))
         \<and> ((action = JStr ''opened'' \<or> action = JStr ''synchronize'')
              \<and> (getDiff e = Inr None \<or> getDiff e = Inr (Some [])) \<longrightarrow>
            run e = (0, \<lparr>calls = [], console = [Log ''No diff found''], reviews = []\<rparr>))"
  using assms by (auto simp: run_def main_def world0_def)

text \<open>
  Claim C9, two instances: a closed pull request, and an opened one without diff.
\<close>

theorem no_op_exit_after_metadata_and_event_are_read_witness:
  "getPRDetails closed_ok_env = Inr example_prDetails
   \<and> eventData closed_ok_env = Inr (JObj [(''action'', JStr ''closed'')])
   \<and> get_prop (JObj [(''action'', JStr ''closed'')]) ''action'' = Inr (JStr ''closed'')
   \<and> run closed_ok_env
       = (0, \<lparr>calls = [], console = [Log ''Unsupported event: pull_request''], reviews = []\<rparr>)
   \<and> getPRDetails no_diff_env = Inr example_prDetails
   \<and> eventData no_diff_env = Inr (JObj [(''action'', JStr ''opened''), (''number'', JNum (Finite 7))])
   \<and> get_prop (JObj [(''action'', JStr ''opened''), (''number'', JNum (Finite 7))]) ''action''
       = Inr (JStr ''opened'')
   \<and> getDiff no_diff_env = Inr None
   \<and> run no_diff_env = (0, \<lparr>calls = [], console = [Log ''No diff found''], reviews = []\<rparr>)"
proof -
  have a1: "getPRDetails closed_ok_env = Inr example_prDetails"
    and a2: "eventData closed_ok_env = Inr (JObj [(''action'', JStr ''closed'')])"
    and a3: "get_prop (JObj [(''action'', JStr ''closed'')]) ''action'' = Inr (JStr ''closed'')"
    and n: "GITHUB_EVENT_NAME closed_ok_env = Some ''pull_request''"
    by (simp_all add: closed_ok_env_def example_env_def)
  have b1: "getPRDetails no_diff_env = Inr example_prDetails"
    and b2: "eventData no_diff_env = Inr (JObj [(''action'', JStr ''opened''), (''number'', JNum (Finite 7))])"
    and b3: "get_prop (JObj [(''action'', JStr ''opened''), (''number'', JNum (Finite 7))]) ''action''
               = Inr (JStr ''opened'')"
    and b4: "getDiff no_diff_env = Inr None"
    by (simp_all add: no_diff_env_def example_env_def)
  from no_op_exit_after_metadata_and_event_are_read [OF a1 a2 a3]
       no_op_exit_after_metadata_and_event_are_read [OF b1 b2 b3]
       a1 a2 a3 n b1 b2 b3 b4
  show ?thesis by (simp add: template_string_def)
qed

text \<open>
  Claim C9 as stated fails: \<open>main\<close> calls \<open>getPRDetails\<close> before it looks at the
  action, so when that call throws, a run with the action \<open>closed\<close> logs no message of
  its own and exits with 1.
\<close>

theorem unsupported_event_exits_with_error_when_metadata_fails:
  "eventData closed_env = Inr (JObj [(''action'', JStr ''closed'')])
   \<and> get_prop (JObj [(''action'', JStr ''closed'')]) ''action'' = Inr (JStr ''closed'')
   \<and> run closed_env = (1, \<lparr>calls = [], console = [Error HostError], reviews = []\<rparr>)"
  by code_simp

end
